theory Spec2Isabelle
  imports Complex_Main
begin

section \<open>FlexiMart ETL pipeline (etl\_pipeline.py)\<close>

text \<open>
  A shallow embedding of \<^verbatim>\<open>part1-database-etl/etl_pipeline.py\<close>.

  \<^item> A data frame is the list of its rows, in order; a row is a record of its columns.
  \<^item> Text is a list of Unicode code points. A cell read by
    \<^verbatim>\<open>pd.read_csv(path, dtype=str)\<close> is a \<open>ustring option\<close>: \<open>None\<close> is the missing value
    (NaN / None), \<open>Some s\<close> a string.
  \<^item> What the code takes from Python's \<^verbatim>\<open>str\<close> (the character classes of
    \<^verbatim>\<open>strip\<close>, \<^verbatim>\<open>isdigit\<close> and the regular expression \<^verbatim>\<open>\d\<close>, and the case mappings
    \<^verbatim>\<open>lower\<close> and \<^verbatim>\<open>title\<close>) and from pandas (\<^verbatim>\<open>pd.to_numeric\<close> and
    \<^verbatim>\<open>pd.to_datetime\<close> with \<^verbatim>\<open>errors="coerce"\<close>) is a parameter: the record \<open>library\<close>.
    The theorems hold for every library; where a proof needs a fact about Unicode, the fact
    is a hypothesis (\<open>python_text\<close>). \<open>lib0\<close> is one library, used for concrete inputs.
  \<^item> A float is an exact rational, \<open>rat option\<close> with \<open>None\<close> for NaN; infinities and
    binary rounding are outside the model.
  \<^item> MySQL is an in-memory store with auto-increment keys; a parameter says which
    statements raise \<^verbatim>\<open>mysql.connector.Error\<close>.
\<close>

subsection \<open>Text, dates and the library\<close>

type_synonym ustring = "nat list"

text \<open>A string literal of the source, as code points.\<close>

definition ustr :: "string \<Rightarrow> ustring" where
  "ustr s = map of_char s"

datatype date = Date (year: nat) (month: nat) (day: nat)

text \<open>
  \<^item> \<open>isspace L c\<close>: \<^verbatim>\<open>str.isspace\<close> of the character, the class \<^verbatim>\<open>s.strip()\<close> removes;
  \<^item> \<open>isdigit L c\<close>: \<^verbatim>\<open>str.isdigit\<close> of the character;
  \<^item> \<open>decimal L c\<close>: the value of a decimal digit (what \<^verbatim>\<open>\d\<close> matches and \<^verbatim>\<open>int\<close>
    reads), \<open>None\<close> for any other character;
  \<^item> \<open>lower L s\<close> and \<open>title L s\<close>: \<^verbatim>\<open>s.lower()\<close> and \<^verbatim>\<open>s.title()\<close>;
  \<^item> \<open>to_numeric L s\<close>: \<^verbatim>\<open>pd.to_numeric\<close> of the string, \<open>None\<close> for NaN;
  \<^item> \<open>to_datetime L dayfirst s\<close>: \<^verbatim>\<open>pd.to_datetime(s, errors="coerce", dayfirst=dayfirst)\<close>
    with \<^verbatim>\<open>.date()\<close>, \<open>None\<close> for NaT or an exception.
\<close>

record library =
  isspace :: "nat \<Rightarrow> bool"
  isdigit :: "nat \<Rightarrow> bool"
  decimal :: "nat \<Rightarrow> nat option"
  lower :: "ustring \<Rightarrow> ustring"
  title :: "ustring \<Rightarrow> ustring"
  to_numeric :: "ustring \<Rightarrow> rat option"
  to_datetime :: "bool \<Rightarrow> ustring \<Rightarrow> date option"

text \<open>\<^verbatim>\<open>s.strip()\<close>.\<close>

definition strip :: "library \<Rightarrow> ustring \<Rightarrow> ustring" where
  "strip L s = rev (dropWhile (isspace L) (rev (dropWhile (isspace L) s)))"

text \<open>A cell, and \<^verbatim>\<open>str(value)\<close> of it: the missing value prints as \<^verbatim>\<open>nan\<close>.\<close>

type_synonym cell = "ustring option"

definition str_of :: "cell \<Rightarrow> ustring" where
  "str_of v = (case v of None \<Rightarrow> ustr ''nan'' | Some s \<Rightarrow> s)"

text \<open>The test \<^verbatim>\<open>s == "" or s.lower() in {"nan", "none", "null"}\<close> of the normalisers.\<close>

definition is_sentinel :: "library \<Rightarrow> ustring \<Rightarrow> bool" where
  "is_sentinel L s = (s = [] \<or> lower L s \<in> set [ustr ''nan'', ustr ''none'', ustr ''null''])"

subsection \<open>Python's text functions on ASCII\<close>

text \<open>
  The classes and mappings of Python on the characters below 128, and \<open>python_text\<close>: the
  library agrees with them on ASCII text, no white space character is a digit, and
  \<^verbatim>\<open>lower\<close> never shortens a string.
\<close>

definition ascii_isspace :: "nat \<Rightarrow> bool" where
  "ascii_isspace c = (c \<in> set [9, 10, 11, 12, 13, 28, 29, 30, 31, 32])"

definition ascii_isdigit :: "nat \<Rightarrow> bool" where
  "ascii_isdigit c = (48 \<le> c \<and> c \<le> 57)"

definition ascii_decimal :: "nat \<Rightarrow> nat option" where
  "ascii_decimal c = (if 48 \<le> c \<and> c \<le> 57 then Some (c - 48) else None)"

definition ascii_isalpha :: "nat \<Rightarrow> bool" where
  "ascii_isalpha c = ((65 \<le> c \<and> c \<le> 90) \<or> (97 \<le> c \<and> c \<le> 122))"

definition ascii_lower_char :: "nat \<Rightarrow> nat" where
  "ascii_lower_char c = (if 65 \<le> c \<and> c \<le> 90 then c + 32 else c)"

definition ascii_upper_char :: "nat \<Rightarrow> nat" where
  "ascii_upper_char c = (if 97 \<le> c \<and> c \<le> 122 then c - 32 else c)"

definition ascii_lower :: "ustring \<Rightarrow> ustring" where
  "ascii_lower s = map ascii_lower_char s"

fun title_from :: "bool \<Rightarrow> ustring \<Rightarrow> ustring" where
  "title_from prev [] = []"
| "title_from prev (c # cs) =
     (if ascii_isalpha c
      then (if prev then ascii_lower_char c else ascii_upper_char c) # title_from True cs
      else c # title_from False cs)"

definition ascii_title :: "ustring \<Rightarrow> ustring" where
  "ascii_title s = title_from False s"

definition is_ascii :: "ustring \<Rightarrow> bool" where
  "is_ascii s = list_all (\<lambda>c. c < 128) s"

definition python_text :: "library \<Rightarrow> bool" where
  "python_text L =
     ((\<forall>c. c < 128 \<longrightarrow> isspace L c = ascii_isspace c)
      \<and> (\<forall>c. c < 128 \<longrightarrow> isdigit L c = ascii_isdigit c)
      \<and> (\<forall>c. c < 128 \<longrightarrow> decimal L c = ascii_decimal c)
      \<and> (\<forall>s. is_ascii s \<longrightarrow> lower L s = ascii_lower s)
      \<and> (\<forall>c. isspace L c \<longrightarrow> \<not> isdigit L c)
      \<and> (\<forall>s. length s \<le> length (lower L s)))"

subsection \<open>Field normalisers\<close>

definition normalise_phone :: "library \<Rightarrow> cell \<Rightarrow> cell" where
  "normalise_phone L phone =
     (let s = strip L (str_of phone) in
      if is_sentinel L s then None
      else let digits = filter (isdigit L) s in
        if length digits < 10 then None
        else let last10 = drop (length digits - 10) digits in
          Some (ustr ''+91-'' @ last10))"

definition normalise_city :: "library \<Rightarrow> cell \<Rightarrow> cell" where
  "normalise_city L city =
     (let s = strip L (str_of city) in
      if is_sentinel L s then None else Some (title L s))"

definition CATEGORY_MAP :: "ustring \<rightharpoonup> ustring" where
  "CATEGORY_MAP = map_of [(ustr ''electronics'', ustr ''Electronics''),
                          (ustr ''fashion'', ustr ''Fashion''),
                          (ustr ''groceries'', ustr ''Groceries'')]"

definition normalise_category :: "library \<Rightarrow> cell \<Rightarrow> ustring" where
  "normalise_category L cat =
     (let s = strip L (str_of cat); k = lower L s in
      case CATEGORY_MAP k of
        Some v \<Rightarrow> v
      | None \<Rightarrow> (if s \<noteq> [] then title L s else ustr ''Unknown''))"

subsection \<open>\<^verbatim>\<open>datetime.strptime\<close>\<close>

definition is_leap :: "nat \<Rightarrow> bool" where
  "is_leap y = ((y mod 4 = 0 \<and> y mod 100 \<noteq> 0) \<or> y mod 400 = 0)"

definition days_in_month :: "nat \<Rightarrow> nat \<Rightarrow> nat" where
  "days_in_month y m =
     (if m = 2 then (if is_leap y then 29 else 28)
      else if m \<in> set [4, 6, 9, 11] then 30 else 31)"

text \<open>
  \<^verbatim>\<open>datetime(year, month, day)\<close> raises ValueError outside the calendar
  (\<open>None\<close> here), and \<^verbatim>\<open>.date()\<close> keeps the three fields.
\<close>

definition make_date :: "nat \<Rightarrow> nat \<Rightarrow> nat \<Rightarrow> date option" where
  "make_date y m d =
     (if 1 \<le> y \<and> y \<le> 9999 \<and> 1 \<le> m \<and> m \<le> 12 \<and> 1 \<le> d \<and> d \<le> days_in_month y m
      then Some (Date y m d) else None)"

text \<open>
  The directives \<^verbatim>\<open>DATE_FORMATS\<close> uses. \<^verbatim>\<open>strptime\<close> turns a format into a regular
  expression, one group per directive (\<^verbatim>\<open>_strptime.TimeRE\<close>):
  \<^verbatim>\<open>%Y\<close> is \<^verbatim>\<open>\d\d\d\d\<close>, \<^verbatim>\<open>%m\<close> is \<^verbatim>\<open>1[0-2]|0[1-9]|[1-9]\<close> and
  \<^verbatim>\<open>%d\<close> is \<^verbatim>\<open>3[0-1]|[1-2]\d|0[1-9]|[1-9]| [1-9]\<close>.
  An alternative is the list of its character classes; a class is a set of ASCII
  characters or \<^verbatim>\<open>\d\<close>, any decimal digit. The literal characters of the formats are
  \<^verbatim>\<open>-\<close> and \<^verbatim>\<open>/\<close>, which match themselves only.
\<close>

datatype directive = DirY | Dirm | Dird | Lit char

datatype char_class = Chars string | Digit

fun compile_format :: "string \<Rightarrow> directive list" where
  "compile_format [] = []"
| "compile_format [c] = [Lit c]"
| "compile_format (c # d # ds) =
     (if c = CHR ''%'' then
        (if d = CHR ''Y'' then DirY else if d = CHR ''m'' then Dirm
         else if d = CHR ''d'' then Dird else Lit d) # compile_format ds
      else Lit c # compile_format (d # ds))"

definition alternatives :: "directive \<Rightarrow> char_class list list" where
  "alternatives dir =
     (case dir of
        DirY \<Rightarrow> [[Digit, Digit, Digit, Digit]]
      | Dirm \<Rightarrow> [[Chars ''1'', Chars ''012''], [Chars ''0'', Chars ''123456789''],
                 [Chars ''123456789'']]
      | Dird \<Rightarrow> [[Chars ''3'', Chars ''01''], [Chars ''12'', Digit],
                 [Chars ''0'', Chars ''123456789''], [Chars ''123456789''],
                 [Chars '' '', Chars ''123456789'']]
      | Lit c \<Rightarrow> [[Chars [c]]])"

definition in_class :: "library \<Rightarrow> char_class \<Rightarrow> nat \<Rightarrow> bool" where
  "in_class L cls c = (case cls of Chars cs \<Rightarrow> c \<in> set (ustr cs) | Digit \<Rightarrow> decimal L c \<noteq> None)"

text \<open>One alternative against the start of the text: the text it takes, and what is left.\<close>

fun match_alt :: "library \<Rightarrow> char_class list \<Rightarrow> ustring \<Rightarrow> (ustring \<times> ustring) option" where
  "match_alt L [] s = Some ([], s)"
| "match_alt L (cls # clss) [] = None"
| "match_alt L (cls # clss) (x # xs) =
     (if in_class L cls x then
        (case match_alt L clss xs of None \<Rightarrow> None | Some (t, r) \<Rightarrow> Some (x # t, r))
      else None)"

text \<open>\<^verbatim>\<open>int(text)\<close> of a group: decimal digits, after an optional blank.\<close>

definition int_of_digits :: "library \<Rightarrow> ustring \<Rightarrow> nat" where
  "int_of_digits L s =
     foldl (\<lambda>n c. 10 * n + (case decimal L c of Some v \<Rightarrow> v | None \<Rightarrow> 0)) 0
       (filter (\<lambda>c. decimal L c \<noteq> None) s)"

text \<open>
  \<^verbatim>\<open>format_regex.match(data_string)\<close>: the first way to match, alternatives tried in
  order with backtracking. The fields found so far are (year, month, day).
\<close>

fun set_field :: "directive \<Rightarrow> nat \<Rightarrow> nat \<times> nat \<times> nat \<Rightarrow> nat \<times> nat \<times> nat" where
  "set_field DirY v (y, m, d) = (v, m, d)"
| "set_field Dirm v (y, m, d) = (y, v, d)"
| "set_field Dird v (y, m, d) = (y, m, v)"
| "set_field (Lit c) v (y, m, d) = (y, m, d)"

fun first_some :: "('a \<Rightarrow> 'b option) \<Rightarrow> 'a list \<Rightarrow> 'b option" where
  "first_some f [] = None"
| "first_some f (x # xs) = (case f x of Some y \<Rightarrow> Some y | None \<Rightarrow> first_some f xs)"

fun re_match ::
  "library \<Rightarrow> directive list \<Rightarrow> ustring \<Rightarrow> nat \<times> nat \<times> nat
     \<Rightarrow> ((nat \<times> nat \<times> nat) \<times> ustring) option" where
  "re_match L [] s acc = Some (acc, s)"
| "re_match L (dir # dirs) s acc =
     first_some
       (\<lambda>alt. case match_alt L alt s of
                None \<Rightarrow> None
              | Some (t, r) \<Rightarrow> re_match L dirs r (set_field dir (int_of_digits L t) acc))
       (alternatives dir)"

text \<open>
  \<^verbatim>\<open>datetime.strptime(s, fmt).date()\<close>; \<open>None\<close> is ValueError (no match, unconverted
  data remains, or a day that is not in the calendar). Fields a format does not set
  default to 1900-01-01.
\<close>

definition strptime :: "library \<Rightarrow> ustring \<Rightarrow> string \<Rightarrow> date option" where
  "strptime L s fmt =
     (case re_match L (compile_format fmt) s (1900, 1, 1) of
        None \<Rightarrow> None
      | Some ((y, m, d), r) \<Rightarrow> (if r \<noteq> [] then None else make_date y m d))"

subsection \<open>A library for concrete inputs\<close>

text \<open>
  \<open>lib0\<close>: the ASCII classes and mappings, a numeric parser for plain decimal literals
  (sign, digits, an optional fraction) and a date parser for the compact form
  \<^verbatim>\<open>YYYYMMDD\<close> only.
\<close>

definition ascii_int :: "ustring \<Rightarrow> nat" where
  "ascii_int s = foldl (\<lambda>n c. 10 * n + (c - 48)) 0 s"

definition dec_numeric :: "ustring \<Rightarrow> rat option" where
  "dec_numeric s =
     (let neg = (take 1 s = ustr ''-'');
          body = (if take 1 s = ustr ''-'' \<or> take 1 s = ustr ''+'' then drop 1 s else s);
          ip = takeWhile ascii_isdigit body;
          r = dropWhile ascii_isdigit body;
          fp = drop 1 r;
          sgn = (if neg then - 1 else 1)
      in if r = [] then (if ip = [] then None else Some (sgn * of_nat (ascii_int ip)))
         else if take 1 r = ustr ''.'' \<and> list_all ascii_isdigit fp \<and> (ip \<noteq> [] \<or> fp \<noteq> [])
         then Some (sgn * (of_nat (ascii_int ip) + of_nat (ascii_int fp) / 10 ^ length fp))
         else None)"

definition compact_date :: "bool \<Rightarrow> ustring \<Rightarrow> date option" where
  "compact_date dayfirst s =
     (if length s = 8 \<and> list_all ascii_isdigit s
      then make_date (ascii_int (take 4 s)) (ascii_int (take 2 (drop 4 s)))
             (ascii_int (drop 6 s))
      else None)"

definition lib0 :: library where
  "lib0 = \<lparr>isspace = ascii_isspace, isdigit = ascii_isdigit, decimal = ascii_decimal,
           lower = ascii_lower, title = ascii_title,
           to_numeric = dec_numeric, to_datetime = compact_date\<rparr>"

subsection \<open>\<^verbatim>\<open>parse_date\<close>\<close>

definition DATE_FORMATS :: "string list" where
  "DATE_FORMATS = [''%Y-%m-%d'', ''%d/%m/%Y'', ''%m-%d-%Y'', ''%m/%d/%Y'', ''%d-%m-%Y'']"

text \<open>The loop over the formats: the first that parses returns.\<close>

fun try_formats :: "library \<Rightarrow> ustring \<Rightarrow> string list \<Rightarrow> date option" where
  "try_formats L s [] = None"
| "try_formats L s (fmt # fmts) =
     (case strptime L s fmt of Some d \<Rightarrow> Some d | None \<Rightarrow> try_formats L s fmts)"

definition parse_date :: "library \<Rightarrow> cell \<Rightarrow> date option" where
  "parse_date L v =
     (let s = strip L (str_of v) in
      if is_sentinel L s then None
      else case try_formats L s DATE_FORMATS of
        Some d \<Rightarrow> Some d
      | None \<Rightarrow>
         (case to_datetime L False s of
            Some d \<Rightarrow> Some d
          | None \<Rightarrow>
             (case to_datetime L True s of
                Some d \<Rightarrow> Some d
              | None \<Rightarrow> None)))"

subsection \<open>Numbers\<close>

text \<open>
  A float column: \<open>None\<close> is NaN. \<open>coerce\<close> is \<^verbatim>\<open>pd.to_numeric(col, errors="coerce")\<close>
  on one cell; a missing cell stays missing.
\<close>

type_synonym num = "rat option"

definition coerce :: "library \<Rightarrow> cell \<Rightarrow> num" where
  "coerce L c = (case c of None \<Rightarrow> None | Some s \<Rightarrow> to_numeric L s)"

definition round_half_even :: "rat \<Rightarrow> int" where
  "round_half_even x =
     (let f = \<lfloor>x\<rfloor>; d = x - of_int f in
      if d < 1 / 2 then f else if 1 / 2 < d then f + 1 else if even f then f else f + 1)"

text \<open>\<^verbatim>\<open>Series.round(2)\<close> on one value, and the product of two columns; NaN propagates.\<close>

definition round2 :: "num \<Rightarrow> num" where
  "round2 v = (case v of None \<Rightarrow> None | Some x \<Rightarrow> Some (of_int (round_half_even (x * 100)) / 100))"

definition num_mul :: "num \<Rightarrow> num \<Rightarrow> num" where
  "num_mul a b = (case a of None \<Rightarrow> None | Some x \<Rightarrow> (case b of None \<Rightarrow> None | Some y \<Rightarrow> Some (x * y)))"

text \<open>The comparisons \<^verbatim>\<open>col > 0\<close> and \<^verbatim>\<open>col >= 0\<close>: false on NaN.\<close>

definition num_gt0 :: "num \<Rightarrow> bool" where
  "num_gt0 v = (case v of None \<Rightarrow> False | Some x \<Rightarrow> 0 < x)"

definition num_ge0 :: "num \<Rightarrow> bool" where
  "num_ge0 v = (case v of None \<Rightarrow> False | Some x \<Rightarrow> 0 \<le> x)"

text \<open>\<^verbatim>\<open>.fillna(0).astype(int)\<close>: NaN becomes 0, a number is cut towards zero.\<close>

definition fillna0_astype_int :: "num \<Rightarrow> int" where
  "fillna0_astype_int v =
     (case v of None \<Rightarrow> 0 | Some x \<Rightarrow> (if 0 \<le> x then \<lfloor>x\<rfloor> else \<lceil>x\<rceil>))"

text \<open>Decimal text of an integer (\<^verbatim>\<open>f"{n}"\<close>) and of a number with two decimals (\<^verbatim>\<open>f"{x:.2f}"\<close>).\<close>

fun show_nat :: "nat \<Rightarrow> ustring" where
  "show_nat n =
     (if n < 10 then [48 + n]
      else show_nat (n div 10) @ [48 + n mod 10])"

definition show_int :: "int \<Rightarrow> ustring" where
  "show_int i = (if i < 0 then ustr ''-'' @ show_nat (nat (- i)) else show_nat (nat i))"

definition format_2f :: "rat \<Rightarrow> ustring" where
  "format_2f x =
     (let c = nat (round_half_even (\<bar>x\<bar> * 100)) in
      (if x < 0 then ustr ''-'' else []) @ show_nat (c div 100) @ ustr ''.''
        @ [48 + c mod 100 div 10, 48 + c mod 10])"

text \<open>The median of a group, as \<^verbatim>\<open>groupby(...).median()\<close> computes it: NaN values are
  skipped, and a group with no number has the median NaN.\<close>

definition median :: "rat list \<Rightarrow> num" where
  "median xs =
     (let ys = sort xs; n = length ys in
      if n = 0 then None
      else if odd n then Some (ys ! (n div 2))
      else Some ((ys ! (n div 2 - 1) + ys ! (n div 2)) / 2))"

subsection \<open>Data frames\<close>

text \<open>\<^verbatim>\<open>df.map(lambda x: x.strip() if isinstance(x, str) else x)\<close> and
  \<^verbatim>\<open>col.replace({"": None})\<close> on one cell.\<close>

definition strip_cell :: "library \<Rightarrow> cell \<Rightarrow> cell" where
  "strip_cell L c = map_option (strip L) c"

definition replace_empty :: "cell \<Rightarrow> cell" where
  "replace_empty c = (if c = Some [] then None else c)"

text \<open>\<^verbatim>\<open>df.drop_duplicates(subset=[k], keep="first")\<close>: a row stays when no earlier row
  has its key; two missing keys are equal.\<close>

function drop_duplicates :: "('a \<Rightarrow> 'k) \<Rightarrow> 'a list \<Rightarrow> 'a list" where
  "drop_duplicates k [] = []"
| "drop_duplicates k (r # rs) = r # drop_duplicates k (filter (\<lambda>x. k x \<noteq> k r) rs)"
  by pat_completeness auto
termination
  by (relation "measure (\<lambda>(k, rs). length rs)") (auto simp: less_Suc_eq_le)

subsection \<open>The quality ledger\<close>

record QualityCounts =
  rows_read :: int
  duplicates_removed :: int
  rows_dropped :: int
  missing_filled :: int
  loaded :: int
  "notes" :: "ustring list"

definition new_QualityCounts :: "int \<Rightarrow> QualityCounts" where
  "new_QualityCounts n =
     \<lparr>rows_read = n, duplicates_removed = 0, rows_dropped = 0, missing_filled = 0,
      loaded = 0, notes = []\<rparr>"

text \<open>The steps \<^verbatim>\<open>qc.rows_dropped += n\<close> and \<^verbatim>\<open>if n: qc.notes.append(note)\<close>, which
  follow every filter (lines 255 to 257, 318 to 322, 365 to 367 and 383 to 385).\<close>

definition drop_rows :: "QualityCounts \<Rightarrow> int \<Rightarrow> ustring \<Rightarrow> QualityCounts" where
  "drop_rows qc n note =
     (let qc = qc\<lparr>rows_dropped := rows_dropped qc + n\<rparr>
      in if n \<noteq> 0 then qc\<lparr>notes := notes qc @ [note]\<rparr> else qc)"

subsection \<open>Transform: customers\<close>

text \<open>A row of \<^verbatim>\<open>customers_raw.csv\<close>. The column \<^verbatim>\<open>registration_date\<close> holds text
  when read and a date once parsed.\<close>

record 'd customers_row =
  customer_id :: cell
  first_name :: cell
  last_name :: cell
  email :: cell
  phone :: cell
  city :: cell
  registration_date :: 'd

text \<open>A cleaned customer: the six columns that are inserted.\<close>

record customer =
  c_first_name :: cell
  c_last_name :: cell
  c_email :: cell
  c_phone :: cell
  c_city :: cell
  c_registration_date :: "date option"

definition strip_customer :: "library \<Rightarrow> cell customers_row \<Rightarrow> cell customers_row" where
  "strip_customer L r =
     \<lparr>customer_id = strip_cell L (customer_id r), first_name = strip_cell L (first_name r),
      last_name = strip_cell L (last_name r), email = strip_cell L (email r),
      phone = strip_cell L (phone r), city = strip_cell L (city r),
      registration_date = strip_cell L (registration_date r)\<rparr>"

text \<open>Lines 246 to 249: the four column assignments, on one row.\<close>

definition standardise_customer :: "library \<Rightarrow> cell customers_row \<Rightarrow> (date option) customers_row" where
  "standardise_customer L r =
     \<lparr>customer_id = customer_id r, first_name = first_name r, last_name = last_name r,
      email = replace_empty (email r), phone = normalise_phone L (phone r),
      city = normalise_city L (city r),
      registration_date = parse_date L (registration_date r)\<rparr>"

definition customer_columns :: "(date option) customers_row \<Rightarrow> customer" where
  "customer_columns r =
     \<lparr>c_first_name = first_name r, c_last_name = last_name r, c_email = email r,
      c_phone = phone r, c_city = city r, c_registration_date = registration_date r\<rparr>"

definition note_missing_email :: "int \<Rightarrow> ustring" where
  "note_missing_email n =
     ustr ''Dropped '' @ show_int n @ ustr '' customer rows due to missing email (NOT NULL constraint).''"

text \<open>The header of the file is fixed, so the column \<^verbatim>\<open>customer_id\<close> is there and the
  loop of lines 268 to 269 runs.\<close>

definition transform_customers ::
  "library \<Rightarrow> cell customers_row list \<Rightarrow> customer list \<times> QualityCounts \<times> (ustring \<rightharpoonup> cell)" where
  "transform_customers L df0 =
     (let qc = new_QualityCounts (int (length df0));
          df = map (strip_customer L) df0;
          df = map (standardise_customer L) df;
          before = int (length df);
          df = filter (\<lambda>r. email r \<noteq> None) df;
          dropped_missing_email = before - int (length df);
          qc = drop_rows qc dropped_missing_email (note_missing_email dropped_missing_email);
          before = int (length df);
          df = drop_duplicates email df;
          qc = qc\<lparr>duplicates_removed := duplicates_removed qc + (before - int (length df))\<rparr>;
          raw_to_email = foldl (\<lambda>m r. m(strip L (str_of (customer_id r)) \<mapsto> email r)) Map.empty df;
          cleaned = map customer_columns df
      in (cleaned, qc, raw_to_email))"

subsection \<open>Transform: products\<close>

record products_row =
  product_id :: cell
  product_name :: cell
  category :: cell
  price :: cell
  stock_quantity :: cell

text \<open>A row of \<^verbatim>\<open>sales_raw.csv\<close>.\<close>

record sales_row =
  transaction_id :: cell
  sale_customer_id :: cell
  sale_product_id :: cell
  quantity :: cell
  unit_price :: cell
  transaction_date :: cell
  status :: cell

record product =
  p_product_name :: cell
  p_category :: cell
  p_price :: num
  p_stock_quantity :: int

definition strip_product :: "library \<Rightarrow> products_row \<Rightarrow> products_row" where
  "strip_product L r =
     \<lparr>product_id = strip_cell L (product_id r), product_name = strip_cell L (product_name r),
      category = strip_cell L (category r), price = strip_cell L (price r),
      stock_quantity = strip_cell L (stock_quantity r)\<rparr>"

definition strip_sale :: "library \<Rightarrow> sales_row \<Rightarrow> sales_row" where
  "strip_sale L r =
     \<lparr>transaction_id = strip_cell L (transaction_id r),
      sale_customer_id = strip_cell L (sale_customer_id r),
      sale_product_id = strip_cell L (sale_product_id r), quantity = strip_cell L (quantity r),
      unit_price = strip_cell L (unit_price r),
      transaction_date = strip_cell L (transaction_date r), status = strip_cell L (status r)\<rparr>"

text \<open>Lines 297 to 301: the median \<^verbatim>\<open>unit_price\<close> of every product the raw sales name.
  The dictionary has a key for each product identifier of \<open>sales_prices\<close>.\<close>

definition sales_prices_of :: "library \<Rightarrow> sales_row list \<Rightarrow> sales_row list" where
  "sales_prices_of L df_sales =
     filter (\<lambda>r. sale_product_id r \<noteq> None \<and> sale_product_id r \<noteq> Some [])
       (map (strip_sale L) df_sales)"

definition median_by_pid :: "library \<Rightarrow> sales_row list \<Rightarrow> ustring \<rightharpoonup> num" where
  "median_by_pid L df_sales pid =
     (let grp = filter (\<lambda>r. sale_product_id r = Some pid) (sales_prices_of L df_sales) in
      if grp = [] then None
      else Some (median (List.map_filter (\<lambda>r. coerce L (unit_price r)) grp)))"

text \<open>Lines 303 to 310: the loop over the rows whose price is missing; it returns the
  frame and \<^verbatim>\<open>filled\<close>.\<close>

fun fill_prices :: "library \<Rightarrow> (ustring \<rightharpoonup> num) \<Rightarrow> products_row list \<Rightarrow> products_row list \<times> int" where
  "fill_prices L med [] = ([], 0)"
| "fill_prices L med (r # rs) =
     (let (rs', filled) = fill_prices L med rs in
      if price r = None then
        (case med (strip L (str_of (product_id r))) of
           Some (Some m) \<Rightarrow> (r\<lparr>price := Some (format_2f m)\<rparr> # rs', filled + 1)
         | _ \<Rightarrow> (r # rs', filled))
      else (r # rs', filled))"

definition note_missing_price :: "int \<Rightarrow> ustring" where
  "note_missing_price n =
     ustr ''Dropped '' @ show_int n @ ustr '' product rows due to missing price not recoverable from sales.''"

definition product_columns :: "library \<Rightarrow> products_row \<Rightarrow> product" where
  "product_columns L r =
     \<lparr>p_product_name = product_name r, p_category = category r,
      p_price = coerce L (price r),
      p_stock_quantity = fillna0_astype_int (coerce L (stock_quantity r))\<rparr>"

definition transform_products ::
  "library \<Rightarrow> products_row list \<Rightarrow> sales_row list
     \<Rightarrow> product list \<times> QualityCounts \<times> (ustring \<rightharpoonup> cell)" where
  "transform_products L df_products0 df_sales =
     (let qc = new_QualityCounts (int (length df_products0));
          df = map (strip_product L) df_products0;
          df = map (\<lambda>r. r\<lparr>product_name := Some (strip L (str_of (product_name r)))\<rparr>) df;
          df = map (\<lambda>r. r\<lparr>category := Some (normalise_category L (category r))\<rparr>) df;
          before_missing_stock =
            int (length (filter (\<lambda>r. stock_quantity r = None) df))
            + int (length (filter (\<lambda>r. stock_quantity r = Some []) df));
          df = map (\<lambda>r. r\<lparr>stock_quantity := replace_empty (stock_quantity r)\<rparr>) df;
          df = map (\<lambda>r. if stock_quantity r = None then r\<lparr>stock_quantity := Some (ustr ''0'')\<rparr> else r) df;
          qc = qc\<lparr>missing_filled := missing_filled qc + before_missing_stock\<rparr>;
          df = map (\<lambda>r. r\<lparr>price := replace_empty (price r)\<rparr>) df;
          (df, filled) = fill_prices L (median_by_pid L df_sales) df;
          qc = qc\<lparr>missing_filled := missing_filled qc + filled\<rparr>;
          before = int (length df);
          df = filter (\<lambda>r. price r \<noteq> None) df;
          dropped_missing_price = before - int (length df);
          qc = drop_rows qc dropped_missing_price (note_missing_price dropped_missing_price);
          before = int (length df);
          df = drop_duplicates product_id df;
          qc = qc\<lparr>duplicates_removed := duplicates_removed qc + (before - int (length df))\<rparr>;
          raw_to_name = foldl (\<lambda>m r. m(strip L (str_of (product_id r)) \<mapsto> product_name r)) Map.empty df;
          cleaned = map (product_columns L) df
      in (cleaned, qc, raw_to_name))"

subsection \<open>Transform: sales\<close>

text \<open>A cleaned sale. The columns \<^verbatim>\<open>order_date\<close>, \<^verbatim>\<open>quantity_num\<close> and
  \<^verbatim>\<open>unit_price_num\<close> that the code computes on the way are functions of the row.\<close>

record sale =
  s_transaction_id :: cell
  s_customer_id :: cell
  s_product_id :: cell
  s_order_date :: "date option"
  s_status :: cell
  s_quantity :: num
  s_unit_price :: num
  s_subtotal :: num
  s_total_amount :: num

definition order_date :: "library \<Rightarrow> sales_row \<Rightarrow> date option" where
  "order_date L r = parse_date L (transaction_date r)"

definition quantity_num :: "library \<Rightarrow> sales_row \<Rightarrow> num" where
  "quantity_num L r = coerce L (quantity r)"

definition unit_price_num :: "library \<Rightarrow> sales_row \<Rightarrow> num" where
  "unit_price_num L r = coerce L (unit_price r)"

text \<open>The mask of lines 375 to 381.\<close>

definition valid_sale :: "library \<Rightarrow> sales_row \<Rightarrow> bool" where
  "valid_sale L r =
     (order_date L r \<noteq> None \<and> quantity_num L r \<noteq> None \<and> num_gt0 (quantity_num L r)
      \<and> unit_price_num L r \<noteq> None \<and> num_ge0 (unit_price_num L r))"

definition sale_columns :: "library \<Rightarrow> sales_row \<Rightarrow> sale" where
  "sale_columns L r =
     (let subtotal = round2 (num_mul (quantity_num L r) (unit_price_num L r));
          total_amount = subtotal
      in \<lparr>s_transaction_id = transaction_id r, s_customer_id = sale_customer_id r,
          s_product_id = sale_product_id r, s_order_date = order_date L r,
          s_status = status r, s_quantity = quantity_num L r,
          s_unit_price = unit_price_num L r, s_subtotal = subtotal,
          s_total_amount = total_amount\<rparr>)"

definition note_missing_ids :: "int \<Rightarrow> ustring" where
  "note_missing_ids n =
     ustr ''Dropped '' @ show_int n @ ustr '' sales rows due to missing customer_id/product_id.''"

definition note_invalid_sale :: "int \<Rightarrow> ustring" where
  "note_invalid_sale n =
     ustr ''Dropped '' @ show_int n @ ustr '' sales rows due to invalid date/quantity/unit_price.''"

definition transform_sales :: "library \<Rightarrow> sales_row list \<Rightarrow> sale list \<times> QualityCounts" where
  "transform_sales L df_sales0 =
     (let qc = new_QualityCounts (int (length df_sales0));
          df = map (strip_sale L) df_sales0;
          before = int (length df);
          df = drop_duplicates transaction_id df;
          qc = qc\<lparr>duplicates_removed := duplicates_removed qc + (before - int (length df))\<rparr>;
          before = int (length df);
          df = map (\<lambda>r. r\<lparr>sale_customer_id := replace_empty (sale_customer_id r)\<rparr>) df;
          df = map (\<lambda>r. r\<lparr>sale_product_id := replace_empty (sale_product_id r)\<rparr>) df;
          df = filter (\<lambda>r. sale_customer_id r \<noteq> None \<and> sale_product_id r \<noteq> None) df;
          dropped_missing_ids = before - int (length df);
          qc = drop_rows qc dropped_missing_ids (note_missing_ids dropped_missing_ids);
          before = int (length df);
          df = filter (valid_sale L) df;
          dropped_invalid = before - int (length df);
          qc = drop_rows qc dropped_invalid (note_invalid_sale dropped_invalid);
          cleaned = map (sale_columns L) df
      in (cleaned, qc))"

subsection \<open>The price loop, row by row\<close>

text \<open>What one turn of the loop of lines 305 to 310 does to its row, and whether it counts
  the row as filled. \<open>fill_prices\<close> is proved below to be the map of the first and the count
  of the second.\<close>

definition fill_price :: "library \<Rightarrow> (ustring \<rightharpoonup> num) \<Rightarrow> products_row \<Rightarrow> products_row" where
  "fill_price L med r =
     (if price r = None then
        (case med (strip L (str_of (product_id r))) of
           Some (Some m) \<Rightarrow> r\<lparr>price := Some (format_2f m)\<rparr>
         | _ \<Rightarrow> r)
      else r)"

definition price_filled :: "library \<Rightarrow> (ustring \<rightharpoonup> num) \<Rightarrow> products_row \<Rightarrow> bool" where
  "price_filled L med r =
     (price r = None \<and>
      (case med (strip L (str_of (product_id r))) of Some (Some m) \<Rightarrow> True | _ \<Rightarrow> False))"

subsection \<open>The price rule in the words of the specification\<close>

text \<open>
  The numerically coercible unit prices of all raw sales rows that reference a product
  identifier (after trimming; an empty identifier references nothing), and the price text
  of a trimmed product row: its own price, or when that is absent or empty the median of
  those unit prices with two decimals, if there is one.
\<close>

definition spec_unit_prices :: "library \<Rightarrow> sales_row list \<Rightarrow> ustring \<Rightarrow> rat list" where
  "spec_unit_prices L df_sales pid =
     List.map_filter (\<lambda>s. coerce L (strip_cell L (unit_price s)))
       (filter (\<lambda>s. pid \<noteq> [] \<and> strip_cell L (sale_product_id s) = Some pid) df_sales)"

definition spec_price_text :: "library \<Rightarrow> sales_row list \<Rightarrow> products_row \<Rightarrow> cell" where
  "spec_price_text L df_sales r =
     (if price r = None \<or> price r = Some [] then
        (case median (spec_unit_prices L df_sales (strip L (str_of (product_id r)))) of
           Some m \<Rightarrow> Some (format_2f m)
         | None \<Rightarrow> None)
      else price r)"

subsection \<open>Example tables\<close>


section \<open>Verification\<close>

subsection \<open>The library on ASCII text\<close>

lemma python_text_lib0: "python_text lib0"
  by (auto simp: python_text_def lib0_def ascii_isspace_def ascii_isdigit_def ascii_lower_def)

lemmas lib0_eval =
  lib0_def ustr_def ascii_isspace_def ascii_isdigit_def ascii_decimal_def ascii_lower_def
  ascii_lower_char_def ascii_title_def ascii_isalpha_def ascii_upper_char_def

lemma python_text_isspace: "python_text L \<Longrightarrow> c < 128 \<Longrightarrow> isspace L c = ascii_isspace c"
  by (simp add: python_text_def)

lemma python_text_isdigit: "python_text L \<Longrightarrow> c < 128 \<Longrightarrow> isdigit L c = ascii_isdigit c"
  by (simp add: python_text_def)

lemma python_text_decimal: "python_text L \<Longrightarrow> c < 128 \<Longrightarrow> decimal L c = ascii_decimal c"
  by (simp add: python_text_def)

lemma python_text_lower: "python_text L \<Longrightarrow> is_ascii s \<Longrightarrow> lower L s = ascii_lower s"
  by (simp add: python_text_def)

lemma python_text_no_space_digit: "python_text L \<Longrightarrow> isspace L c \<Longrightarrow> \<not> isdigit L c"
  by (simp add: python_text_def)

lemma is_sentinel_short:
  assumes "python_text L" and "is_sentinel L s"
  shows "length s \<le> 4"
proof -
  from assms(1) have "length s \<le> length (lower L s)"
    by (simp add: python_text_def)
  moreover from assms(2) have "s = [] \<or> length (lower L s) \<le> 4"
    by (auto simp: is_sentinel_def ustr_def)
  ultimately show ?thesis by auto
qed

lemma is_sentinel_nan: "python_text L \<Longrightarrow> is_sentinel L (strip L (ustr ''nan''))"
  by (simp add: is_sentinel_def strip_def ustr_def python_text_isspace ascii_isspace_def
      python_text_lower is_ascii_def ascii_lower_def ascii_lower_char_def)

subsection \<open>The phone normaliser\<close>

lemma filter_isdigit_dropWhile_isspace:
  "python_text L \<Longrightarrow> filter (isdigit L) (dropWhile (isspace L) s) = filter (isdigit L) s"
  by (induction s) (auto simp: python_text_no_space_digit)

lemma filter_isdigit_strip:
  "python_text L \<Longrightarrow> filter (isdigit L) (strip L s) = filter (isdigit L) s"
  by (simp add: strip_def filter_isdigit_dropWhile_isspace flip: rev_filter)

lemma is_sentinel_few_digits:
  assumes "python_text L" and "is_sentinel L s"
  shows "length (filter (isdigit L) s) < 10"
proof -
  from assms have "length s \<le> 4"
    by (rule is_sentinel_short)
  moreover have "length (filter (isdigit L) s) \<le> length s"
    by (rule length_filter_le)
  ultimately show ?thesis by linarith
qed

lemma filter_isdigit_ascii:
  "python_text L \<Longrightarrow> is_ascii s \<Longrightarrow> filter (isdigit L) s = filter ascii_isdigit s"
  by (induction s) (auto simp: is_ascii_def python_text_isdigit)

text \<open>
  Claim C9. For every input text, \<open>normalise_phone\<close> keeps the digits of the text and
  nothing else; with fewer than 10 digits it returns the missing value, otherwise
  \<^verbatim>\<open>+91-\<close> followed by the last 10 digits. A digit is a character of the class
  \<^verbatim>\<open>str.isdigit\<close> (line 107), which is the parameter \<open>isdigit L\<close>: the statement holds
  for the whole class, and on a text of ASCII characters the digits are the characters
  \<^verbatim>\<open>0\<close> to \<^verbatim>\<open>9\<close>. A missing cell gives the missing value. The text
  \<^verbatim>\<open>+91 98765-43210\<close> becomes \<^verbatim>\<open>+91-9876543210\<close>.
\<close>

theorem normalise_phone_spec:
  assumes "python_text L"
  shows
    "normalise_phone L (Some s) =
       (if length (filter (isdigit L) s) < 10 then None
        else Some (ustr ''+91-''
                    @ drop (length (filter (isdigit L) s) - 10) (filter (isdigit L) s)))
     \<and> (is_ascii s \<longrightarrow> filter (isdigit L) s = filter (\<lambda>c. c \<in> set (ustr ''0123456789'')) s)
     \<and> normalise_phone L None = None
     \<and> normalise_phone L (Some (ustr ''+91 98765-43210'')) = Some (ustr ''+91-9876543210'')"
proof (intro conjI impI)
  show main: "normalise_phone L (Some s) =
       (if length (filter (isdigit L) s) < 10 then None
        else Some (ustr ''+91-''
                    @ drop (length (filter (isdigit L) s) - 10) (filter (isdigit L) s)))"
    for s
  proof (cases "is_sentinel L (strip L s)")
    case True
    with assms have "length (filter (isdigit L) (strip L s)) < 10"
      by (rule is_sentinel_few_digits)
    with assms have "length (filter (isdigit L) s) < 10"
      by (simp add: filter_isdigit_strip)
    with True show ?thesis
      by (simp add: normalise_phone_def str_of_def)
  next
    case False
    with assms show ?thesis
      by (simp add: normalise_phone_def str_of_def Let_def filter_isdigit_strip)
  qed
  show "filter (isdigit L) s = filter (\<lambda>c. c \<in> set (ustr ''0123456789'')) s" if "is_ascii s"
  proof -
    have "ascii_isdigit = (\<lambda>c. c \<in> set (ustr ''0123456789''))"
      by (simp add: ascii_isdigit_def ustr_def fun_eq_iff) arith
    with assms that show ?thesis
      by (simp add: filter_isdigit_ascii)
  qed
  from assms show "normalise_phone L None = None"
    by (simp add: normalise_phone_def str_of_def is_sentinel_nan)
  have "normalise_phone L (Some (ustr ''+91 98765-43210'')) =
          Some (ustr ''+91-'' @ filter (isdigit L) (ustr ''9876543210''))"
    using assms
    by (simp add: main ustr_def python_text_isdigit ascii_isdigit_def)
  with assms show "normalise_phone L (Some (ustr ''+91 98765-43210'')) = Some (ustr ''+91-9876543210'')"
    by (simp add: ustr_def python_text_isdigit ascii_isdigit_def)
qed

theorem normalise_phone_spec_witness:
  "python_text lib0
   \<and> normalise_phone lib0 (Some (ustr ''+91 98765-43210'')) = Some (ustr ''+91-9876543210'')
   \<and> normalise_phone lib0 (Some (ustr ''0091 (98765) 432-10x'')) = Some (ustr ''+91-9876543210'')
   \<and> normalise_phone lib0 (Some (ustr ''98765 4321'')) = None"
proof -
  have d1: "filter (isdigit lib0) (ustr ''0091 (98765) 432-10x'') = ustr ''00919876543210''"
    by (simp add: lib0_eval)
  have d2: "filter (isdigit lib0) (ustr ''98765 4321'') = ustr ''987654321''"
    by (simp add: lib0_eval)
  note A = normalise_phone_spec [OF python_text_lib0, of "ustr ''0091 (98765) 432-10x''"]
  note B = normalise_phone_spec [OF python_text_lib0, of "ustr ''98765 4321''"]
  from A d1 have r1:
    "normalise_phone lib0 (Some (ustr ''0091 (98765) 432-10x'')) = Some (ustr ''+91-9876543210'')"
    by (simp add: ustr_def)
  from B d2 have r2: "normalise_phone lib0 (Some (ustr ''98765 4321'')) = None"
    by (simp add: ustr_def)
  from A r1 r2 python_text_lib0 show ?thesis
    by blast
qed

subsection \<open>The date parser\<close>

lemma try_formats_first:
  "i < length fmts \<Longrightarrow> strptime L s (fmts ! i) = Some d \<Longrightarrow>
   (\<forall>j<i. strptime L s (fmts ! j) = None) \<Longrightarrow> try_formats L s fmts = Some d"
proof (induction fmts arbitrary: i)
  case Nil
  then show ?case by simp
next
  case (Cons fmt fmts)
  show ?case
  proof (cases i)
    case 0
    with Cons.prems show ?thesis by simp
  next
    case (Suc k)
    from Cons.prems(3) Suc have head: "strptime L s fmt = None"
      by auto
    from Cons.prems(3) Suc have "\<forall>j<k. strptime L s (fmts ! j) = None"
      by auto
    with Cons.IH [of k] Cons.prems(1,2) Suc have "try_formats L s fmts = Some d"
      by simp
    with head show ?thesis by simp
  qed
qed

lemma try_formats_none:
  "(\<forall>fmt \<in> set fmts. strptime L s fmt = None) \<Longrightarrow> try_formats L s fmts = None"
  by (induction fmts) auto

lemmas strptime_eval =
  strptime_def ustr_def alternatives_def in_class_def int_of_digits_def
  python_text_decimal ascii_decimal_def make_date_def days_in_month_def is_leap_def

lemmas parse_date_eval =
  parse_date_def str_of_def strip_def is_sentinel_def DATE_FORMATS_def strptime_def
  alternatives_def in_class_def int_of_digits_def make_date_def days_in_month_def is_leap_def
  compact_date_def ascii_int_def lib0_eval

text \<open>
  Claim C3. \<open>parse_date\<close> tries the five formats in the order
  \<^verbatim>\<open>%Y-%m-%d\<close>, \<^verbatim>\<open>%d/%m/%Y\<close>, \<^verbatim>\<open>%m-%d-%Y\<close>, \<^verbatim>\<open>%m/%d/%Y\<close>, \<^verbatim>\<open>%d-%m-%Y\<close> and returns
  the date of the first one that parses the stripped text; when none does it returns
  what the permissive parser finds month-first, else day-first; a missing value, an
  empty text and the tokens nan, none, null (in any case, as \<^verbatim>\<open>lower\<close> decides) give no
  date; and \<^verbatim>\<open>01-02-2024\<close> is the 2nd of January 2024.
\<close>

theorem parse_date_spec:
  assumes "python_text L"
  shows
    "DATE_FORMATS = [''%Y-%m-%d'', ''%d/%m/%Y'', ''%m-%d-%Y'', ''%m/%d/%Y'', ''%d-%m-%Y'']
     \<and> parse_date L None = None
     \<and> (strip L s = [] \<or> lower L (strip L s) \<in> {ustr ''nan'', ustr ''none'', ustr ''null''}
          \<longrightarrow> parse_date L (Some s) = None)
     \<and> (\<forall>i d. \<not> is_sentinel L (strip L s) \<and> i < length DATE_FORMATS
            \<and> strptime L (strip L s) (DATE_FORMATS ! i) = Some d
            \<and> (\<forall>j<i. strptime L (strip L s) (DATE_FORMATS ! j) = None)
          \<longrightarrow> parse_date L (Some s) = Some d)
     \<and> (\<not> is_sentinel L (strip L s)
          \<and> (\<forall>fmt \<in> set DATE_FORMATS. strptime L (strip L s) fmt = None)
          \<longrightarrow> parse_date L (Some s) =
              (case to_datetime L False (strip L s) of
                 Some d \<Rightarrow> Some d
               | None \<Rightarrow> to_datetime L True (strip L s)))
     \<and> parse_date L (Some (ustr ''01-02-2024'')) = Some (Date 2024 1 2)"
proof (intro conjI allI impI)
  show "DATE_FORMATS = [''%Y-%m-%d'', ''%d/%m/%Y'', ''%m-%d-%Y'', ''%m/%d/%Y'', ''%d-%m-%Y'']"
    by (simp add: DATE_FORMATS_def)
  from assms show "parse_date L None = None"
    by (simp add: parse_date_def str_of_def is_sentinel_nan)
  show "parse_date L (Some s) = None"
    if "strip L s = [] \<or> lower L (strip L s) \<in> {ustr ''nan'', ustr ''none'', ustr ''null''}"
    using that by (auto simp: parse_date_def str_of_def is_sentinel_def)
  show first: "parse_date L (Some s) = Some d"
    if h: "\<not> is_sentinel L (strip L s) \<and> i < length DATE_FORMATS
          \<and> strptime L (strip L s) (DATE_FORMATS ! i) = Some d
          \<and> (\<forall>j<i. strptime L (strip L s) (DATE_FORMATS ! j) = None)" for i d s
  proof -
    from h have "try_formats L (strip L s) DATE_FORMATS = Some d"
      by (intro try_formats_first [of i]) auto
    with h show ?thesis
      by (simp add: parse_date_def str_of_def)
  qed
  show "parse_date L (Some s) =
          (case to_datetime L False (strip L s) of
             Some d \<Rightarrow> Some d
           | None \<Rightarrow> to_datetime L True (strip L s))"
    if h: "\<not> is_sentinel L (strip L s)
           \<and> (\<forall>fmt \<in> set DATE_FORMATS. strptime L (strip L s) fmt = None)"
  proof -
    from h have "try_formats L (strip L s) DATE_FORMATS = None"
      by (intro try_formats_none) auto
    with h show ?thesis
      by (simp add: parse_date_def str_of_def split: option.splits)
  qed
  show "parse_date L (Some (ustr ''01-02-2024'')) = Some (Date 2024 1 2)"
  proof -
    let ?s = "ustr ''01-02-2024''"
    from assms have st: "strip L ?s = ?s"
      by (simp add: strip_def ustr_def python_text_isspace ascii_isspace_def)
    have "\<not> length ?s \<le> 4"
      by (simp add: ustr_def)
    with assms have ns: "\<not> is_sentinel L ?s"
      by (blast dest: is_sentinel_short)
    from assms have b0: "strptime L ?s (DATE_FORMATS ! 0) = None"
      by (simp add: DATE_FORMATS_def strptime_eval)
    from assms have b1: "strptime L ?s (DATE_FORMATS ! 1) = None"
      by (simp add: DATE_FORMATS_def strptime_eval)
    from assms have b2: "strptime L ?s (DATE_FORMATS ! 2) = Some (Date 2024 1 2)"
      by (simp add: DATE_FORMATS_def strptime_eval)
    from b0 b1 have b4: "\<forall>j<2. strptime L ?s (DATE_FORMATS ! j) = None"
      by (auto simp: less_2_cases_iff)
    have len: "2 < length DATE_FORMATS"
      by (simp add: DATE_FORMATS_def)
    from first [of ?s 2 "Date 2024 1 2"] st ns b2 b4 len show ?thesis
      by simp
  qed
qed

theorem parse_date_spec_witness:
  "python_text lib0
   \<and> lower lib0 (strip lib0 (ustr '' NaN '')) = ustr ''nan''
   \<and> parse_date lib0 (Some (ustr '' NaN '')) = None
   \<and> strptime lib0 (ustr ''01-02-2024'') (DATE_FORMATS ! 0) = None
   \<and> strptime lib0 (ustr ''01-02-2024'') (DATE_FORMATS ! 1) = None
   \<and> strptime lib0 (ustr ''01-02-2024'') (DATE_FORMATS ! 2) = Some (Date 2024 1 2)
   \<and> strptime lib0 (ustr ''01-02-2024'') (DATE_FORMATS ! 4) = Some (Date 2024 2 1)
   \<and> parse_date lib0 (Some (ustr ''01-02-2024'')) = Some (Date 2024 1 2)
   \<and> parse_date lib0 (Some (ustr ''2024-01-15'')) = Some (Date 2024 1 15)
   \<and> parse_date lib0 (Some (ustr ''15/01/2024'')) = Some (Date 2024 1 15)
   \<and> parse_date lib0 (Some (ustr ''03/12/2024'')) = Some (Date 2024 12 3)
   \<and> parse_date lib0 (Some (ustr ''15-01-2024'')) = Some (Date 2024 1 15)
   \<and> list_all (\<lambda>fmt. strptime lib0 (ustr ''20240115'') fmt = None) DATE_FORMATS
   \<and> to_datetime lib0 False (ustr ''20240115'') = Some (Date 2024 1 15)
   \<and> parse_date lib0 (Some (ustr ''20240115'')) = Some (Date 2024 1 15)"
proof -
  note P = python_text_lib0
  have a1: "lower lib0 (strip lib0 (ustr '' NaN '')) = ustr ''nan''"
    by (simp add: parse_date_eval)
  have b0: "strptime lib0 (ustr ''01-02-2024'') (DATE_FORMATS ! 0) = None"
    by (simp add: parse_date_eval)
  have b1: "strptime lib0 (ustr ''01-02-2024'') (DATE_FORMATS ! 1) = None"
    by (simp add: parse_date_eval)
  have b2: "strptime lib0 (ustr ''01-02-2024'') (DATE_FORMATS ! 2) = Some (Date 2024 1 2)"
    by (simp add: parse_date_eval)
  have b5: "strptime lib0 (ustr ''01-02-2024'') (DATE_FORMATS ! 4) = Some (Date 2024 2 1)"
    by (simp add: parse_date_eval)
  have c1: "list_all (\<lambda>fmt. strptime lib0 (ustr ''20240115'') fmt = None) DATE_FORMATS"
    by (simp add: parse_date_eval)
  have c2: "to_datetime lib0 False (ustr ''20240115'') = Some (Date 2024 1 15)"
    by (simp add: parse_date_eval)
  have c3: "strip lib0 (ustr ''20240115'') = ustr ''20240115''"
    "\<not> is_sentinel lib0 (ustr ''20240115'')"
    by (simp_all add: parse_date_eval)
  have e: "parse_date lib0 (Some (ustr ''2024-01-15'')) = Some (Date 2024 1 15)"
    "parse_date lib0 (Some (ustr ''15/01/2024'')) = Some (Date 2024 1 15)"
    "parse_date lib0 (Some (ustr ''03/12/2024'')) = Some (Date 2024 12 3)"
    "parse_date lib0 (Some (ustr ''15-01-2024'')) = Some (Date 2024 1 15)"
    by (simp_all add: parse_date_eval)
  note A = parse_date_spec [OF P, of "ustr '' NaN ''"]
  note C = parse_date_spec [OF P, of "ustr ''20240115''"]
  from A a1 have r1: "parse_date lib0 (Some (ustr '' NaN '')) = None"
    by simp
  from A have r2: "parse_date lib0 (Some (ustr ''01-02-2024'')) = Some (Date 2024 1 2)"
    by blast
  from C c1 c2 c3 have r3: "parse_date lib0 (Some (ustr ''20240115'')) = Some (Date 2024 1 15)"
    by (simp add: list_all_iff)
  from P a1 r1 b0 b1 b2 b5 r2 e c1 c2 r3 show ?thesis
    by blast
qed

subsection \<open>Data frames\<close>


lemma drop_duplicates_length: "length (drop_duplicates k rs) \<le> length rs"
proof (induction k rs rule: drop_duplicates.induct)
  case (1 k)
  show ?case by simp
next
  case (2 k r rs)
  have "length (drop_duplicates k (filter (\<lambda>x. k x \<noteq> k r) rs))
          \<le> length (filter (\<lambda>x. k x \<noteq> k r) rs)"
    by (rule 2)
  also have "\<dots> \<le> length rs"
    by (rule length_filter_le)
  finally show ?case by simp
qed





lemma drop_rows_simps:
  "rows_read (drop_rows qc n note) = rows_read qc"
  "duplicates_removed (drop_rows qc n note) = duplicates_removed qc"
  "rows_dropped (drop_rows qc n note) = rows_dropped qc + n"
  "missing_filled (drop_rows qc n note) = missing_filled qc"
  "loaded (drop_rows qc n note) = loaded qc"
  by (simp_all add: drop_rows_def Let_def)

lemma drop_rows_notes:
  "notes (drop_rows qc n note) = (if n = 0 then notes qc else notes qc @ [note])"
  by (simp add: drop_rows_def Let_def)


subsection \<open>The customer cleaner\<close>


lemma transform_customers_conservation:
  "rows_read (fst (snd (transform_customers L df))) =
     duplicates_removed (fst (snd (transform_customers L df)))
     + rows_dropped (fst (snd (transform_customers L df)))
     + int (length (fst (transform_customers L df)))"
  by (simp add: transform_customers_def Let_def new_QualityCounts_def drop_rows_simps
      del: map_map filter_map)





end
